theory Spec2Isabelle
  imports Main "HOL-Library.Monad_Syntax" "HOL-Library.Sublist"
begin

section \<open>JavaScript values\<close>

text \<open>
  The application (\<^verbatim>\<open>src/App.jsx\<close>) keeps whatever \<^verbatim>\<open>JSON.parse\<close> returned as its plan and
  reads it by property access, so the plan is modelled as an untyped JSON value. A number
  is an IEEE double: sign, mantissa and binary exponent, or an infinity (\<^verbatim>\<open>JSON.parse\<close>
  yields no NaN). An object is the list of its own properties in property order.

  A string is the list of its code units. A \<^typ>\<open>char\<close> holds the units up to \<^verbatim>\<open>U+00FF\<close>; the
  two glyphs of the source's literals that lie above (the cross mark of the alerts and the
  bullet of the exported lines) are constants holding their UTF-8 bytes, and nothing in
  the model looks inside them.
\<close>

datatype jsnum = Finite bool int int | Infinite bool

datatype json =
    JNull
  | JBool bool
  | JNum jsnum
  | JStr string
  | JArr "json list"
  | JObj "(string \<times> json) list"

text \<open>A JavaScript value is a JSON value or \<^verbatim>\<open>undefined\<close> (\<^term>\<open>None\<close>).\<close>

type_synonym jsval = "json option"

fun truthy :: "json \<Rightarrow> bool" where
  "truthy JNull = False"
| "truthy (JBool b) = b"
| "truthy (JNum (Finite s m e)) = (m \<noteq> 0)"
| "truthy (JNum (Infinite s)) = True"
| "truthy (JStr s) = (s \<noteq> [])"
| "truthy (JArr xs) = True"
| "truthy (JObj kvs) = True"


text \<open>
  \<^verbatim>\<open>x.k\<close> throws a TypeError (\<^term>\<open>None\<close> of the outer option) when \<^verbatim>\<open>x\<close> is \<^verbatim>\<open>undefined\<close> or
  \<^verbatim>\<open>null\<close>; \<^verbatim>\<open>x?.k\<close> is \<^verbatim>\<open>undefined\<close> there. The source reads only the plan's field names,
  none of which is a built-in property of an array, a string, a number or a boolean.
\<close>

fun own_property :: "json \<Rightarrow> string \<Rightarrow> jsval" where
  "own_property (JObj kvs) k = map_of kvs k"
| "own_property v k = None"


fun opt_member :: "jsval \<Rightarrow> string \<Rightarrow> jsval" where
  "opt_member None k = None"
| "opt_member (Some JNull) k = None"
| "opt_member (Some v) k = own_property v k"


section \<open>Strings: trim and the fence-stripping replace\<close>

text \<open>
  White space as \<^verbatim>\<open>String.prototype.trim\<close> and the regular expression class \<^verbatim>\<open>\s\<close> both
  read it: tab, line feed, vertical tab, form feed, carriage return, space and the
  no-break space.
\<close>

definition is_space :: "char \<Rightarrow> bool" where
  "is_space c = (c \<in> {CHR 0x09, CHR 0x0A, CHR 0x0B, CHR 0x0C, CHR 0x0D, CHR 0x20, CHR 0xA0})"

definition trim :: "string \<Rightarrow> string" where
  "trim s = rev (dropWhile is_space (rev (dropWhile is_space s)))"

definition fence :: string where
  "fence = replicate 3 (CHR 0x60)"

text \<open>
  \<^verbatim>\<open>raw.replace(/^```json\s*|\s*```$/g, "")\<close>. The first alternative can match at index 0
  only and takes the opening fence with the tag \<^verbatim>\<open>json\<close> and all white space after it. The
  second matches at an index when what follows is white space and then a fence that ends
  the text; it is tried at every index from the left, and what it matches reaches the
  end of the text.
\<close>

fun strip_closing :: "string \<Rightarrow> string" where
  "strip_closing [] = []"
| "strip_closing (c # cs) =
     (if dropWhile is_space (c # cs) = fence then [] else c # strip_closing cs)"

definition strip_fences :: "string \<Rightarrow> string" where
  "strip_fences raw =
     (if take 7 raw = fence @ ''json''
      then strip_closing (dropWhile is_space (drop 7 raw))
      else strip_closing raw)"

section \<open>The platform\<close>

text \<open>
  What the browser and the libraries compute is a parameter of the model:
  \<^verbatim>\<open>JSON.parse\<close> (\<^term>\<open>Inl\<close> carries the message of the SyntaxError it throws),
  \<^verbatim>\<open>JSON.stringify\<close>, the conversion of a number to a string, jsPDF's
  \<^verbatim>\<open>splitTextToSize\<close> under the current font size and weight, and today's date as
  \<^verbatim>\<open>toLocaleDateString\<close> prints it.
\<close>

record platform =
  json_parse :: "string \<Rightarrow> string + json"
  json_stringify :: "json \<Rightarrow> string"
  number_to_string :: "jsnum \<Rightarrow> string"
  splitTextToSize :: "nat \<Rightarrow> bool \<Rightarrow> jsval \<Rightarrow> nat \<Rightarrow> string list"
  today :: string

text \<open>An awaited promise: rejected with an error message, or fulfilled.\<close>

datatype 'a promise = Rejected string | Fulfilled 'a

section \<open>Application state\<close>

record profile =
  name :: string
  age :: string
  gender :: string
  height :: string
  weight :: string
  fitnessGoal :: string
  fitnessLevel :: string
  workoutLocation :: string
  dietaryPreference :: string
  medicalHistory :: string
  stressLevel :: string

text \<open>What the application does to the outside world, in order.\<close>

datatype effect =
    Alert string
  | ConsoleError string
  | ConsoleWarn string
  | GenerateContent string string
  | Fetch string "(string \<times> string) list" string
  | PlayAudio
  | Speak json

record image =
  image_name :: string
  dataUrl :: string

record app =
  loading :: bool
  imageLoading :: bool
  ttsLoading :: bool
  plan :: json
  currentStep :: string
  expandedDay :: "nat option"
  expandedMeal :: "string option"
  selectedImage :: "image option"
  apiKey :: string
  elevenKey :: string
  elevenVoiceId :: string
  audioBlobUrl :: "string option"
  isPlaying :: bool
  formData :: profile
  localStorage :: "string \<rightharpoonup> string"
  effects :: "effect list"

definition emit :: "effect \<Rightarrow> app \<Rightarrow> app" where
  "emit e s = s\<lparr>effects := effects s @ [e]\<rparr>"

definition get_or :: "(string \<rightharpoonup> string) \<Rightarrow> string \<Rightarrow> string \<Rightarrow> string" where
  "get_or store k d = (case store k of None \<Rightarrow> d | Some v \<Rightarrow> if v = [] then d else v)"

text \<open>
  The \<^verbatim>\<open>useState\<close> initialisers of \<^verbatim>\<open>App\<close>. The plan is the cached entry parsed, or \<^verbatim>\<open>null\<close>
  when the entry is absent, empty or does not parse (the \<^verbatim>\<open>catch\<close>).
\<close>

definition initial_plan :: "platform \<Rightarrow> (string \<rightharpoonup> string) \<Rightarrow> json" where
  "initial_plan P store =
     (case store ''fitness_plan'' of
        None \<Rightarrow> JNull
      | Some cached \<Rightarrow>
          if cached = [] then JNull
          else (case json_parse P cached of Inl err \<Rightarrow> JNull | Inr v \<Rightarrow> v))"

definition initial_profile :: profile where
  "initial_profile =
     \<lparr>name = [], age = [], gender = ''male'', height = [], weight = [],
      fitnessGoal = ''weight_loss'', fitnessLevel = ''beginner'', workoutLocation = ''gym'',
      dietaryPreference = ''non_veg'', medicalHistory = [], stressLevel = ''moderate''\<rparr>"

definition initial :: "platform \<Rightarrow> (string \<rightharpoonup> string) \<Rightarrow> app" where
  "initial P store =
     \<lparr>loading = False, imageLoading = False, ttsLoading = False,
      plan = initial_plan P store,
      currentStep = (if truthy (initial_plan P store) then ''plan'' else ''form''),
      expandedDay = None, expandedMeal = None, selectedImage = None,
      apiKey = get_or store ''gemini_api'' [],
      elevenKey = get_or store ''eleven_key'' [],
      elevenVoiceId = get_or store ''eleven_voice'' ''21m00Tcm4TlvDq8ikWAM'',
      audioBlobUrl = None, isPlaying = False,
      formData = initial_profile,
      localStorage = store, effects = []\<rparr>"

section \<open>Responses of the generative model\<close>

record blob =
  blob_data :: "string option"

record part =
  part_text :: "string option"
  inlineData :: "blob option"

datatype content = Content (parts: "part list option")

datatype candidate = Candidate (content: "content option")

datatype response = Response (candidates: "candidate list option")

text \<open>\<^verbatim>\<open>res?.candidates?.[0]?.content?.parts\<close>\<close>

definition first_parts :: "response \<Rightarrow> part list option" where
  "first_parts res =
     (case candidates res of
        None \<Rightarrow> None
      | Some [] \<Rightarrow> None
      | Some (c # cs) \<Rightarrow> (case content c of None \<Rightarrow> None | Some ct \<Rightarrow> parts ct))"

text \<open>\<^verbatim>\<open>res?.candidates?.[0]?.content?.parts?.[0]?.text?.trim() || ""\<close>\<close>

definition response_text :: "response \<Rightarrow> string" where
  "response_text res =
     (case first_parts res of
        None \<Rightarrow> []
      | Some [] \<Rightarrow> []
      | Some (p # ps) \<Rightarrow> (case part_text p of None \<Rightarrow> [] | Some t \<Rightarrow> trim t))"

section \<open>Plan generation\<close>

definition cross_mark :: string where
  "cross_mark = [CHR 0xE2, CHR 0x9D, CHR 0x8C]"

text \<open>\<^verbatim>\<open>JSON.stringify\<close> of a string: the quoted text with its escapes.\<close>

definition hex_digit :: "nat \<Rightarrow> char" where
  "hex_digit n = (''0123456789abcdef'' ! (n mod 16))"

fun escape_char :: "char \<Rightarrow> string" where
  "escape_char c =
     (if c = CHR 0x22 then [CHR 0x5C, CHR 0x22]
      else if c = CHR 0x5C then [CHR 0x5C, CHR 0x5C]
      else if c = CHR 0x08 then [CHR 0x5C, CHR ''b'']
      else if c = CHR 0x09 then [CHR 0x5C, CHR ''t'']
      else if c = CHR 0x0A then [CHR 0x5C, CHR ''n'']
      else if c = CHR 0x0C then [CHR 0x5C, CHR ''f'']
      else if c = CHR 0x0D then [CHR 0x5C, CHR ''r'']
      else if of_char c < (32::nat)
        then [CHR 0x5C, CHR ''u'', CHR ''0'', CHR ''0'',
              hex_digit (of_char c div 16), hex_digit (of_char c)]
      else [c])"

definition quote :: "string \<Rightarrow> string" where
  "quote s = CHR 0x22 # concat (map escape_char s) @ [CHR 0x22]"

text \<open>\<^verbatim>\<open>JSON.stringify(formData, null, 2)\<close>: the eleven fields, all strings, indented by two.\<close>

definition profile_entry :: "string \<Rightarrow> string \<Rightarrow> string" where
  "profile_entry k v = ''  '' @ quote k @ '': '' @ quote v"

fun join_lines :: "string list \<Rightarrow> string" where
  "join_lines [] = []"
| "join_lines [l] = l"
| "join_lines (l # ls) = l @ '','' @ [CHR 0x0A] @ join_lines ls"

definition stringify_profile :: "profile \<Rightarrow> string" where
  "stringify_profile fd =
     ''{'' @ [CHR 0x0A] @
     join_lines
       [profile_entry ''name'' (name fd), profile_entry ''age'' (age fd),
        profile_entry ''gender'' (gender fd), profile_entry ''height'' (height fd),
        profile_entry ''weight'' (weight fd), profile_entry ''fitnessGoal'' (fitnessGoal fd),
        profile_entry ''fitnessLevel'' (fitnessLevel fd),
        profile_entry ''workoutLocation'' (workoutLocation fd),
        profile_entry ''dietaryPreference'' (dietaryPreference fd),
        profile_entry ''medicalHistory'' (medicalHistory fd),
        profile_entry ''stressLevel'' (stressLevel fd)] @
     [CHR 0x0A] @ ''}''"

definition prompt_head :: string where
  \<open>prompt_head = ''
You are an expert AI fitness coach. Create a personalized fitness plan based on the following user data:

''\<close>

definition prompt_schema :: string where
  \<open>prompt_schema = ''

Return ONLY valid JSON with this exact structure (no markdown, no extra text):
{
  "motivationalQuote": "A powerful motivational quote",
  "workoutPlan": {
    "overview": "Brief overview of the workout philosophy",
    "days": [
      {
        "day": "Day 1",
        "focus": "Chest & Triceps",
        "exercises": [
          { "name": "Bench Press", "sets": "3", "reps": "12", "rest": "60s" }
        ]
      }
    ]
  },
  "dietPlan": {
    "overview": "Diet philosophy and calorie target",
    "meals": {
      "breakfast": ["Oatmeal with fruits", "Protein shake"],
      "lunch": ["Grilled chicken breast", "Brown rice", "Vegetables"],
      "dinner": ["Salmon", "Sweet potato", "Salad"],
      "snacks": ["Greek yogurt", "Nuts"]
    }
  },
  "lifestyleTips": ["Tip 1", "Tip 2", "Tip 3"]
}''\<close>

definition plan_prompt :: "profile \<Rightarrow> string" where
  "plan_prompt fd = prompt_head @ stringify_profile fd @ prompt_schema"

text \<open>
  The body of the \<^verbatim>\<open>try\<close> block of \<^verbatim>\<open>generatePlan\<close>, after \<^verbatim>\<open>setLoading(true)\<close>: \<^term>\<open>Inr\<close> is
  the state when the block completes, \<^term>\<open>Inl\<close> the message of what was thrown and the
  state at that point. \<^verbatim>\<open>reply\<close> is what awaiting \<^verbatim>\<open>generateContent\<close> gives (the SDK rejects on
  a transport failure and on a status that is not 2xx); \<^verbatim>\<open>quota\<close> is the message of the
  exception \<^verbatim>\<open>localStorage.setItem\<close> throws when the store refuses the write, if it does.
\<close>

definition generatePlan_try ::
  "platform \<Rightarrow> response promise \<Rightarrow> string option \<Rightarrow> app \<Rightarrow> (string \<times> app) + app" where
  "generatePlan_try P reply quota s =
     (let s1 = emit (GenerateContent ''gemini-2.5-flash'' (plan_prompt (formData s))) s in
      case reply of
        Rejected msg \<Rightarrow> Inl (msg, s1)
      | Fulfilled res \<Rightarrow>
          (let raw = response_text res;
               clean = strip_fences raw in
           case json_parse P clean of
             Inl msg \<Rightarrow> Inl (msg, s1)
           | Inr json \<Rightarrow>
               (let s2 = s1\<lparr>plan := json\<rparr> in
                case quota of
                  Some msg \<Rightarrow> Inl (msg, s2)
                | None \<Rightarrow>
                    Inr (s2\<lparr>localStorage :=
                               (localStorage s2)(''fitness_plan'' \<mapsto> json_stringify P json),
                             currentStep := ''plan''\<rparr>))))"

definition generatePlan :: "platform \<Rightarrow> response promise \<Rightarrow> string option \<Rightarrow> app \<Rightarrow> app" where
  "generatePlan P reply quota s =
     (if apiKey s = [] then emit (Alert ''Enter your Gemini API key first!'') s
      else
        (let s' =
           (case generatePlan_try P reply quota (s\<lparr>loading := True\<rparr>) of
              Inl (msg, t) \<Rightarrow>
                emit (Alert (cross_mark @ '' Failed to generate plan: '' @ msg))
                  (emit (ConsoleError msg) t)
            | Inr t \<Rightarrow> t)
         in s'\<lparr>loading := False\<rparr>))"

text \<open>The requests a run of the application has sent to the generative model.\<close>

fun is_request :: "effect \<Rightarrow> bool" where
  "is_request (GenerateContent m p) = True"
| "is_request (Fetch u h b) = True"
| "is_request e = False"

fun is_alert :: "effect \<Rightarrow> bool" where
  "is_alert (Alert m) = True"
| "is_alert e = False"

section \<open>Image generation\<close>

text \<open>
  The loop over the parts of the first candidate: the first part that carries inline data
  gives the data URL (\<^verbatim>\<open>undefined\<close> prints as the word when the payload has no data).
\<close>

fun scan_parts :: "part list \<Rightarrow> string option" where
  "scan_parts [] = None"
| "scan_parts (p # ps) =
     (case inlineData p of
        Some b \<Rightarrow>
          Some (''data:image/png;base64,'' @
                (case blob_data b of None \<Rightarrow> ''undefined'' | Some d \<Rightarrow> d))
      | None \<Rightarrow> scan_parts ps)"

definition image_prompt :: "string \<Rightarrow> string \<Rightarrow> string" where
  \<open>image_prompt nm ty =
     (if ty = ''exercise''
      then ''Create a realistic high-quality photo of "'' @ nm @
           ''" being performed in a modern gym. Dynamic lighting, crisp details, 4k.''
      else ''Create a realistic high-quality food photo of "'' @ nm @
           ''" plated beautifully, natural light, restaurant style, 4k.'')\<close>

definition generateImage_try ::
  "string \<Rightarrow> string \<Rightarrow> response promise \<Rightarrow> app \<Rightarrow> (string \<times> app) + app" where
  "generateImage_try nm ty reply s =
     (let s1 = emit (GenerateContent ''gemini-2.5-flash-image'' (image_prompt nm ty)) s in
      case reply of
        Rejected msg \<Rightarrow> Inl (msg, s1)
      | Fulfilled res \<Rightarrow>
          (case scan_parts (case first_parts res of None \<Rightarrow> [] | Some ps \<Rightarrow> ps) of
             None \<Rightarrow> Inl (''No image data returned.'', s1)
           | Some url \<Rightarrow>
               Inr (s1\<lparr>selectedImage := Some \<lparr>image_name = nm, dataUrl = url\<rparr>\<rparr>)))"

definition generateImage :: "string \<Rightarrow> string \<Rightarrow> response promise \<Rightarrow> app \<Rightarrow> app" where
  "generateImage nm ty reply s =
     (if apiKey s = [] then emit (Alert ''Enter your Gemini API key first!'') s
      else
        (let s' =
           (case generateImage_try nm ty reply (s\<lparr>imageLoading := True\<rparr>) of
              Inl (msg, t) \<Rightarrow> emit (Alert (cross_mark @ '' Image generation failed: '' @ msg)) t
            | Inr t \<Rightarrow> t)
         in s'\<lparr>imageLoading := False\<rparr>))"

section \<open>Speech\<close>

text \<open>
  \<^verbatim>\<open>plan?.workoutPlan?.overview || "Workout details."\<close> for the section \<^verbatim>\<open>"workout"\<close>, the diet
  overview with its own default for any other section.
\<close>

definition section_text :: "json \<Rightarrow> string \<Rightarrow> json" where
  "section_text p sect =
     (let (field, dflt) =
            (if sect = ''workout'' then (''workoutPlan'', ''Workout details.'')
             else (''dietPlan'', ''Diet details.''))
      in case opt_member (opt_member (Some p) field) ''overview'' of
           None \<Rightarrow> JStr dflt
         | Some v \<Rightarrow> if truthy v then v else JStr dflt)"

text \<open>
  What the remote speech service gives: \<^verbatim>\<open>fetch\<close> rejects (the request never got an
  answer), or it resolves with a response of some status whose body \<^verbatim>\<open>res.blob()\<close> then
  reads (or fails to read).
\<close>

datatype http_response = HttpResponse (status: nat) (body: "string promise")

text \<open>The browser's own synthesiser: \<^verbatim>\<open>speechSynthesis.speak\<close>, then \<^verbatim>\<open>setIsPlaying(true)\<close>.\<close>

definition speak_native :: "json \<Rightarrow> app \<Rightarrow> app" where
  "speak_native txt s = (emit (Speak txt) s)\<lparr>isPlaying := True\<rparr>"

text \<open>
  \<^verbatim>\<open>speakSection\<close>. The object URL made for the blob stands for the blob's bytes; the play
  that the source defers by 200 ms is recorded when it is scheduled.
\<close>

definition speakSection :: "platform \<Rightarrow> string \<Rightarrow> http_response promise \<Rightarrow> app \<Rightarrow> app" where
  "speakSection P sect reply s =
     (if \<not> truthy (plan s) then s
      else
        (let txt = section_text (plan s) sect in
         if elevenKey s \<noteq> [] then
           (let s1 = emit (Fetch (''https://api.elevenlabs.io/v1/text-to-speech/'' @
                                  elevenVoiceId s @ ''/stream'')
                             [(''xi-api-key'', elevenKey s),
                              (''Content-Type'', ''application/json''),
                              (''Accept'', ''audio/mpeg'')]
                             (json_stringify P (JObj [(''text'', txt)])))
                      (s\<lparr>ttsLoading := True\<rparr>);
                failed = (\<lambda>msg.
                  speak_native txt
                    ((emit (ConsoleWarn (''ElevenLabs failed, using browser speech. '' @ msg))
                        s1)\<lparr>ttsLoading := False\<rparr>))
            in case reply of
                 Rejected msg \<Rightarrow> failed msg
               | Fulfilled res \<Rightarrow>
                   (case body res of
                      Rejected msg \<Rightarrow> failed msg
                    | Fulfilled bytes \<Rightarrow>
                        (emit PlayAudio (s1\<lparr>audioBlobUrl := Some bytes\<rparr>))
                          \<lparr>isPlaying := True, ttsLoading := False\<rparr>))
         else speak_native txt s))"

section \<open>Panels\<close>

text \<open>
  The click handlers of the day and meal headers, and how the viewer decides that a panel
  is open (\<^verbatim>\<open>expandedDay === idx\<close>, \<^verbatim>\<open>expandedMeal === meal\<close>).
\<close>

definition toggleDay :: "nat \<Rightarrow> app \<Rightarrow> app" where
  "toggleDay idx s = s\<lparr>expandedDay := (if expandedDay s = Some idx then None else Some idx)\<rparr>"

definition toggleMeal :: "string \<Rightarrow> app \<Rightarrow> app" where
  "toggleMeal meal s =
     s\<lparr>expandedMeal := (if expandedMeal s = Some meal then None else Some meal)\<rparr>"

definition day_expanded :: "app \<Rightarrow> nat \<Rightarrow> bool" where
  "day_expanded s idx = (expandedDay s = Some idx)"

definition meal_expanded :: "app \<Rightarrow> string \<Rightarrow> bool" where
  "meal_expanded s meal = (expandedMeal s = Some meal)"

datatype click = DayHeader nat | MealHeader string

fun click_step :: "app \<Rightarrow> click \<Rightarrow> app" where
  "click_step s (DayHeader idx) = toggleDay idx s"
| "click_step s (MealHeader meal) = toggleMeal meal s"

text \<open>The Regenerate button.\<close>

definition regenerate :: "app \<Rightarrow> app" where
  "regenerate s =
     s\<lparr>localStorage := (localStorage s)(''fitness_plan'' := None),
       plan := JNull, currentStep := ''form''\<rparr>"

section \<open>Document export\<close>

text \<open>What a template literal prints for a value.\<close>

fun join_with :: "string \<Rightarrow> string list \<Rightarrow> string" where
  "join_with sep [] = []"
| "join_with sep [x] = x"
| "join_with sep (x # xs) = x @ sep @ join_with sep xs"

fun json_to_string :: "(jsnum \<Rightarrow> string) \<Rightarrow> json \<Rightarrow> string" where
  "json_to_string nts JNull = ''null''"
| "json_to_string nts (JBool b) = (if b then ''true'' else ''false'')"
| "json_to_string nts (JNum n) = nts n"
| "json_to_string nts (JStr s) = s"
| "json_to_string nts (JArr xs) =
     join_with '','' (map (\<lambda>x. if x = JNull then [] else json_to_string nts x) xs)"
| "json_to_string nts (JObj kvs) = ''[object Object]''"


text \<open>The decimal digits of a number that is not negative.\<close>

function digits_of :: "int \<Rightarrow> string" where
  "digits_of n =
     (if n < 10 then [''0123456789'' ! nat n]
      else digits_of (n div 10) @ [''0123456789'' ! nat (n mod 10)])"
  by pat_completeness auto
termination
  by (relation "measure nat") auto




















section \<open>The browser's JSON codec\<close>

text \<open>
  \<^verbatim>\<open>JSON.parse\<close> and \<^verbatim>\<open>JSON.stringify\<close> as ECMA-262 defines them, for closed evaluation: the
  theorems below hold for every platform, and their instances are computed with this
  one. A number literal becomes the nearest double (ties to even), and a double prints
  as its shortest decimal that reads back as the same double.
\<close>

subsection \<open>Numbers\<close>

function bitlen :: "int \<Rightarrow> int" where
  "bitlen n = (if n \<le> 0 then 0 else 1 + bitlen (n div 2))"
  by pat_completeness auto
termination
  by (relation "measure nat") auto

text \<open>\<^verbatim>\<open>n / d\<close> rounded to the nearest integer, a tie to the even one.\<close>

definition round_div :: "int \<Rightarrow> int \<Rightarrow> int" where
  "round_div n d =
     (let q = n div d; r = n mod d
      in if 2 * r < d \<or> (2 * r = d \<and> even q) then q else q + 1)"

text \<open>The fraction \<^verbatim>\<open>num / den\<close> divided by \<^verbatim>\<open>b ^ k\<close>.\<close>

definition scale :: "int \<Rightarrow> int \<Rightarrow> int \<Rightarrow> int \<Rightarrow> int \<times> int" where
  "scale b num den k = (if k < 0 then (num * b ^ nat (- k), den) else (num, den * b ^ nat k))"

text \<open>
  The double nearest to \<^verbatim>\<open>m * 10 ^ e\<close>: a mantissa below \<^verbatim>\<open>2 ^ 53\<close> and an exponent from
  \<^verbatim>\<open>-1074\<close> (the subnormals) to \<^verbatim>\<open>971\<close>, beyond which the value is an infinity.
\<close>

definition to_double :: "bool \<Rightarrow> int \<Rightarrow> int \<Rightarrow> jsnum" where
  "to_double neg m e =
     (if m \<le> 0 then Finite neg 0 0
      else
        (let (num, den) = scale 10 m 1 (- e);
             t = bitlen num - bitlen den;
             (n1, d1) = scale 2 num den t;
             k = max (if d1 \<le> n1 then t - 52 else t - 53) (- 1074);
             (n2, d2) = scale 2 num den k;
             q = round_div n2 d2;
             (q', k') = (if q = 2 ^ 53 then (2 ^ 52, k + 1) else (q, k))
         in if 971 < k' then Infinite neg
            else if q' = 0 then Finite neg 0 0
            else Finite neg q' k'))"

function lead_zeros :: "int \<Rightarrow> int \<Rightarrow> int" where
  "lead_zeros vn vd = (if vn \<le> 0 \<or> vd \<le> vn then 0 else 1 + lead_zeros (10 * vn) vd)"
  by pat_completeness auto
termination
  by (relation "measure (\<lambda>(vn, vd). nat (vd - vn))") auto

function drop_zeros :: "int \<Rightarrow> int \<Rightarrow> int \<times> int" where
  "drop_zeros s e = (if s \<le> 0 \<or> s mod 10 \<noteq> 0 then (s, e) else drop_zeros (s div 10) (e + 1))"
  by pat_completeness auto
termination
  by (relation "measure (\<lambda>(s, e). nat s)") auto

text \<open>
  The \<^verbatim>\<open>k\<close>-digit decimals next to the value \<^verbatim>\<open>vn / vd\<close> (below and above it) that read back
  as the double \<^verbatim>\<open>d\<close>; of two, the nearer, and of two equally near the even one.
\<close>

definition digits_at :: "jsnum \<Rightarrow> int \<Rightarrow> int \<Rightarrow> int \<Rightarrow> int \<Rightarrow> (int \<times> int) option" where
  "digits_at d vn vd n k =
     (let e = n - k;
          (a, b) = scale 10 vn vd e;
          s0 = a div b; r = a mod b;
          ok0 = (s0 \<noteq> 0 \<and> to_double False s0 e = d);
          ok1 = (to_double False (s0 + 1) e = d);
          up = (2 * r > b \<or> (2 * r = b \<and> odd s0))
      in if ok0 \<and> ok1 then Some (if up then s0 + 1 else s0, e)
         else if ok0 then Some (s0, e)
         else if ok1 then Some (s0 + 1, e)
         else None)"

fun shortest :: "jsnum \<Rightarrow> int \<Rightarrow> int \<Rightarrow> int \<Rightarrow> int \<Rightarrow> nat \<Rightarrow> (int \<times> int) option" where
  "shortest d vn vd n k 0 = None"
| "shortest d vn vd n k (Suc fuel) =
     (case digits_at d vn vd n k of
        Some r \<Rightarrow> Some r
      | None \<Rightarrow> shortest d vn vd n (k + 1) fuel)"

definition format_digits :: "int \<Rightarrow> int \<Rightarrow> string" where
  "format_digits s e =
     (let ds = digits_of s; k = int (length ds); n = e + k
      in if k \<le> n \<and> n \<le> 21 then ds @ replicate (nat (n - k)) (CHR ''0'')
         else if 0 < n \<and> n \<le> 21 then take (nat n) ds @ ''.'' @ drop (nat n) ds
         else if - 6 < n \<and> n \<le> 0 then ''0.'' @ replicate (nat (- n)) (CHR ''0'') @ ds
         else
           (let x = n - 1;
                ex = (if x < 0 then ''-'' else ''+'') @ digits_of \<bar>x\<bar>
            in if k = 1 then ds @ ''e'' @ ex
               else take 1 ds @ ''.'' @ drop 1 ds @ ''e'' @ ex))"

text \<open>\<^verbatim>\<open>Number::toString\<close>. Seventeen digits always suffice for a double.\<close>

definition Number_toString :: "jsnum \<Rightarrow> string" where
  "Number_toString d =
     (case d of
        Infinite neg \<Rightarrow> (if neg then ''-Infinity'' else ''Infinity'')
      | Finite neg q k \<Rightarrow>
          if q \<le> 0 then ''0''
          else
            (let (vn, vd) = scale 2 q 1 (- k);
                 n = (if vd \<le> vn then int (length (digits_of (vn div vd)))
                      else 1 - lead_zeros vn vd)
             in (if neg then ''-'' else []) @
                (case shortest (Finite False q k) vn vd n 1 17 of
                   None \<Rightarrow> []
                 | Some (s, e) \<Rightarrow> (case drop_zeros s e of (s', e') \<Rightarrow> format_digits s' e'))))"

subsection \<open>Parsing\<close>

definition is_json_space :: "char \<Rightarrow> bool" where
  "is_json_space c = (c \<in> {CHR 0x20, CHR 0x09, CHR 0x0A, CHR 0x0D})"

definition is_digit :: "char \<Rightarrow> bool" where
  "is_digit c = (c \<in> set ''0123456789'')"

definition digit_value :: "char \<Rightarrow> int" where
  "digit_value c = int (of_char c) - 48"

definition digits_value :: "string \<Rightarrow> int" where
  "digits_value ds = foldl (\<lambda>a c. 10 * a + digit_value c) 0 ds"

definition hex_value :: "char \<Rightarrow> nat option" where
  "hex_value c =
     (if is_digit c then Some (of_char c - 48)
      else if c \<in> set ''abcdef'' then Some (of_char c - 87)
      else if c \<in> set ''ABCDEF'' then Some (of_char c - 55)
      else None)"

text \<open>The four hexadecimal digits of a \<^verbatim>\<open>\u\<close> escape.\<close>

definition hex4 :: "string \<Rightarrow> nat option" where
  "hex4 s =
     (case map hex_value s of
        [Some a, Some b, Some c, Some d] \<Rightarrow> Some (((a * 16 + b) * 16 + c) * 16 + d)
      | _ \<Rightarrow> None)"

definition unescape :: "char \<Rightarrow> char option" where
  "unescape c =
     (if c = CHR 0x22 then Some (CHR 0x22)
      else if c = CHR 0x5C then Some (CHR 0x5C)
      else if c = CHR ''/'' then Some (CHR ''/'')
      else if c = CHR ''b'' then Some (CHR 0x08)
      else if c = CHR ''f'' then Some (CHR 0x0C)
      else if c = CHR ''n'' then Some (CHR 0x0A)
      else if c = CHR ''r'' then Some (CHR 0x0D)
      else if c = CHR ''t'' then Some (CHR 0x09)
      else None)"

definition consed :: "'a \<Rightarrow> ('a list \<times> 'b) option \<Rightarrow> ('a list \<times> 'b) option" where
  "consed x r = (case r of None \<Rightarrow> None | Some (xs, rest) \<Rightarrow> Some (x # xs, rest))"

text \<open>
  A string after its opening quote: the text it denotes and what follows the closing
  quote. A code unit above \<^verbatim>\<open>U+00FF\<close> has no \<^typ>\<open>char\<close>; an escape that denotes one is
  outside this model and is refused.
\<close>

fun parse_string :: "string \<Rightarrow> (string \<times> string) option" where
  "parse_string [] = None"
| "parse_string (c # cs) =
     (if c = CHR 0x22 then Some ([], cs)
      else if c = CHR 0x5C then
        (case cs of
           [] \<Rightarrow> None
         | e # r \<Rightarrow>
             if e = CHR ''u'' then
               (case hex4 (take 4 r) of
                  None \<Rightarrow> None
                | Some n \<Rightarrow> if n < 256 then consed (char_of n) (parse_string (drop 4 r)) else None)
             else
               (case unescape e of
                  None \<Rightarrow> None
                | Some x \<Rightarrow> consed x (parse_string r)))
      else if of_char c < (32::nat) then None
      else consed c (parse_string cs))"

text \<open>
  A number literal: \<^verbatim>\<open>-? (0 | [1-9][0-9]*) (. [0-9]+)? ([eE] [+-]? [0-9]+)?\<close>, the longest
  that the text starts with.
\<close>

definition parse_fraction :: "string \<Rightarrow> string \<times> string" where
  "parse_fraction s =
     (case s of
        c # r \<Rightarrow>
          if c = CHR ''.'' \<and> takeWhile is_digit r \<noteq> []
          then (takeWhile is_digit r, dropWhile is_digit r)
          else ([], s)
      | [] \<Rightarrow> ([], s))"

definition parse_exponent :: "string \<Rightarrow> int \<times> string" where
  "parse_exponent s =
     (case s of
        c # r \<Rightarrow>
          if c = CHR ''e'' \<or> c = CHR ''E'' then
            (let (neg, r') =
                   (case r of
                      x # r1 \<Rightarrow>
                        if x = CHR ''-'' then (True, r1)
                        else if x = CHR ''+'' then (False, r1)
                        else (False, r)
                    | [] \<Rightarrow> (False, r));
                 ds = takeWhile is_digit r'
             in if ds = [] then (0, s)
                else ((if neg then - digits_value ds else digits_value ds),
                      dropWhile is_digit r'))
          else (0, s)
      | [] \<Rightarrow> (0, s))"

definition parse_number :: "string \<Rightarrow> (jsnum \<times> string) option" where
  "parse_number s =
     (let (neg, s1) = (case s of c # r \<Rightarrow> if c = CHR ''-'' then (True, r) else (False, s)
                       | [] \<Rightarrow> (False, s));
          ds = (case s1 of c # r \<Rightarrow> if c = CHR ''0'' then ''0'' else takeWhile is_digit s1
                | [] \<Rightarrow> [])
      in if ds = [] then None
         else
           (let (fs, s2) = parse_fraction (drop (length ds) s1);
                (ex, s3) = parse_exponent s2
            in Some (to_double neg (digits_value (ds @ fs)) (ex - int (length fs)), s3)))"

text \<open>
  Property order: the keys that are array indices (a key that is the decimal of its own
  value, below \<^verbatim>\<open>2^32 - 1\<close>) come first, in ascending order, then the other keys in the order of their
  creation. Setting a key that is there keeps its place.
\<close>

definition index_of :: "string \<Rightarrow> int option" where
  "index_of k =
     (if k \<noteq> [] \<and> list_all is_digit k \<and> length k \<le> 10
      then (if digits_of (digits_value k) = k \<and> digits_value k < 4294967295
            then Some (digits_value k) else None)
      else None)"

fun insert_index :: "int \<Rightarrow> string \<Rightarrow> json \<Rightarrow> (string \<times> json) list \<Rightarrow> (string \<times> json) list" where
  "insert_index i k v [] = [(k, v)]"
| "insert_index i k v ((k', v') # kvs) =
     (case index_of k' of
        Some j \<Rightarrow> if j < i then (k', v') # insert_index i k v kvs else (k, v) # (k', v') # kvs
      | None \<Rightarrow> (k, v) # (k', v') # kvs)"

definition set_property :: "string \<Rightarrow> json \<Rightarrow> (string \<times> json) list \<Rightarrow> (string \<times> json) list" where
  "set_property k v kvs =
     (if k \<in> fst ` set kvs then map (\<lambda>(k', v'). if k' = k then (k', v) else (k', v')) kvs
      else (case index_of k of Some i \<Rightarrow> insert_index i k v kvs | None \<Rightarrow> kvs @ [(k, v)]))"

definition skip :: "string \<Rightarrow> string" where
  "skip s = dropWhile is_json_space s"

text \<open>
  A value, the elements of an array after the first bracket, and the members of an
  object after the first brace, each with the text that follows. The first argument
  bounds the depth of the calls; \<^verbatim>\<open>JSON_parse\<close> gives more than any text can use.
\<close>

fun parse_value :: "nat \<Rightarrow> string \<Rightarrow> (json \<times> string) option"
  and parse_elements :: "nat \<Rightarrow> string \<Rightarrow> (json list \<times> string) option"
  and parse_members ::
    "nat \<Rightarrow> (string \<times> json) list \<Rightarrow> string \<Rightarrow> ((string \<times> json) list \<times> string) option" where
  "parse_value 0 s = None"
| "parse_value (Suc n) s =
     (case skip s of
        [] \<Rightarrow> None
      | c # cs \<Rightarrow>
          if c = CHR ''{'' then
            (case skip cs of
               [] \<Rightarrow> None
             | x # r \<Rightarrow>
                 if x = CHR ''}'' then Some (JObj [], r)
                 else (case parse_members n [] cs of
                         None \<Rightarrow> None
                       | Some (kvs, r') \<Rightarrow> Some (JObj kvs, r')))
          else if c = CHR ''['' then
            (case skip cs of
               [] \<Rightarrow> None
             | x # r \<Rightarrow>
                 if x = CHR '']'' then Some (JArr [], r)
                 else (case parse_elements n cs of
                         None \<Rightarrow> None
                       | Some (vs, r') \<Rightarrow> Some (JArr vs, r')))
          else if c = CHR 0x22 then
            (case parse_string cs of None \<Rightarrow> None | Some (str, r) \<Rightarrow> Some (JStr str, r))
          else if take 4 (c # cs) = ''null'' then Some (JNull, drop 4 (c # cs))
          else if take 4 (c # cs) = ''true'' then Some (JBool True, drop 4 (c # cs))
          else if take 5 (c # cs) = ''false'' then Some (JBool False, drop 5 (c # cs))
          else (case parse_number (c # cs) of
                  None \<Rightarrow> None
                | Some (num, r) \<Rightarrow> Some (JNum num, r)))"
| "parse_elements 0 s = None"
| "parse_elements (Suc n) s =
     (case parse_value n s of
        None \<Rightarrow> None
      | Some (v, r) \<Rightarrow>
          (case skip r of
             [] \<Rightarrow> None
           | x # r' \<Rightarrow>
               if x = CHR '','' then consed v (parse_elements n r')
               else if x = CHR '']'' then Some ([v], r')
               else None))"
| "parse_members 0 acc s = None"
| "parse_members (Suc n) acc s =
     (case skip s of
        [] \<Rightarrow> None
      | q # r \<Rightarrow>
          if q \<noteq> CHR 0x22 then None
          else
            (case parse_string r of
               None \<Rightarrow> None
             | Some (k, r1) \<Rightarrow>
                 (case skip r1 of
                    [] \<Rightarrow> None
                  | x # r2 \<Rightarrow>
                      if x \<noteq> CHR '':'' then None
                      else
                        (case parse_value n r2 of
                           None \<Rightarrow> None
                         | Some (v, r3) \<Rightarrow>
                             (case skip r3 of
                                [] \<Rightarrow> None
                              | y # r4 \<Rightarrow>
                                  if y = CHR '','' then parse_members n (set_property k v acc) r4
                                  else if y = CHR ''}'' then Some (set_property k v acc, r4)
                                  else None)))))"

definition JSON_parse :: "string \<Rightarrow> json option" where
  "JSON_parse s =
     (case parse_value (2 * length s + 2) s of
        None \<Rightarrow> None
      | Some (v, r) \<Rightarrow> if skip r = [] then Some v else None)"

subsection \<open>Serialising\<close>

fun JSON_stringify :: "json \<Rightarrow> string" where
  "JSON_stringify JNull = ''null''"
| "JSON_stringify (JBool b) = (if b then ''true'' else ''false'')"
| "JSON_stringify (JNum (Finite s m e)) = Number_toString (Finite s m e)"
| "JSON_stringify (JNum (Infinite s)) = ''null''"
| "JSON_stringify (JStr s) = quote s"
| "JSON_stringify (JArr xs) = ''['' @ join_with '','' (map JSON_stringify xs) @ '']''"
| "JSON_stringify (JObj kvs) =
     ''{'' @ join_with '','' (map (\<lambda>(k, v). quote k @ '':'' @ JSON_stringify v) kvs) @ ''}''"

text \<open>
  A browser: the codec above, a SyntaxError message, and a page wide enough that jsPDF
  breaks a text at its line breaks only (\<^verbatim>\<open>String(text).split(/\r?\n/)\<close>).
\<close>

fun split_lines :: "string \<Rightarrow> string \<Rightarrow> string list" where
  "split_lines cur [] = [rev cur]"
| "split_lines cur (c # cs) =
     (if c = CHR 0x0A
      then rev (case cur of x # r \<Rightarrow> if x = CHR 0x0D then r else cur | [] \<Rightarrow> cur) #
           split_lines [] cs
      else split_lines (c # cur) cs)"

definition browser :: platform where
  "browser =
     \<lparr>json_parse = (\<lambda>s. case JSON_parse s of
                            None \<Rightarrow> Inl ''Unexpected token''
                          | Some v \<Rightarrow> Inr v),
      json_stringify = JSON_stringify,
      number_to_string = Number_toString,
      splitTextToSize = (\<lambda>fontSize bold txt width.
                           split_lines []
                             (case txt of None \<Rightarrow> ''undefined''
                              | Some j \<Rightarrow> json_to_string Number_toString j)),
      today = ''11/2/2026''\<rparr>"

section \<open>Values that the codec carries back\<close>





fun fuel_of :: "json \<Rightarrow> nat" where
  "fuel_of (JArr xs) = 1 + sum_list (map (\<lambda>x. 1 + fuel_of x) xs)"
| "fuel_of (JObj kvs) = 1 + sum_list (map (\<lambda>kv. 1 + fuel_of (snd kv)) kvs)"
| "fuel_of v = 1"




section \<open>Plans of the shape the prompt asks for\<close>

text \<open>
  The structure the prompt demands of the model (\<^term>\<open>prompt_schema\<close>), as a typed record,
  and the JSON value that a plan of this shape is. The meals are the slots in the order
  of the object's keys; the tips may be missing.
\<close>

record exercise =
  ex_name :: string
  ex_sets :: string
  ex_reps :: string
  ex_rest :: string

record workout_day =
  day_label :: string
  day_focus :: string
  day_exercises :: "exercise list"

record fitness_plan =
  motivationalQuote :: string
  workout_overview :: string
  workout_days :: "workout_day list"
  diet_overview :: string
  meals :: "(string \<times> string list) list"
  lifestyleTips :: "string list option"

definition exercise_json :: "exercise \<Rightarrow> json" where
  "exercise_json ex =
     JObj [(''name'', JStr (ex_name ex)), (''sets'', JStr (ex_sets ex)),
           (''reps'', JStr (ex_reps ex)), (''rest'', JStr (ex_rest ex))]"

definition day_json :: "workout_day \<Rightarrow> json" where
  "day_json dy =
     JObj [(''day'', JStr (day_label dy)), (''focus'', JStr (day_focus dy)),
           (''exercises'', JArr (map exercise_json (day_exercises dy)))]"

definition meals_json :: "(string \<times> string list) list \<Rightarrow> json" where
  "meals_json ms = JObj (map (\<lambda>(slot, items). (slot, JArr (map JStr items))) ms)"

definition plan_json :: "fitness_plan \<Rightarrow> json" where
  "plan_json p =
     JObj ([(''motivationalQuote'', JStr (motivationalQuote p)),
            (''workoutPlan'',
               JObj [(''overview'', JStr (workout_overview p)),
                     (''days'', JArr (map day_json (workout_days p)))]),
            (''dietPlan'',
               JObj [(''overview'', JStr (diet_overview p)),
                     (''meals'', meals_json (meals p))])] @
           (case lifestyleTips p of
              None \<Rightarrow> []
            | Some ts \<Rightarrow> [(''lifestyleTips'', JArr (map JStr ts))]))"











section \<open>Outcomes and example inputs\<close>

text \<open>
  A plan-generation attempt fails (with the message the handler reports) when the request
  is rejected or when the stripped text of the answer does not parse.
\<close>

definition attempt_fails :: "platform \<Rightarrow> response promise \<Rightarrow> string option" where
  "attempt_fails P reply =
     (case reply of
        Rejected msg \<Rightarrow> Some msg
      | Fulfilled res \<Rightarrow>
          (case json_parse P (strip_fences (response_text res)) of
             Inl msg \<Rightarrow> Some msg
           | Inr v \<Rightarrow> None))"

text \<open>An answer of the image model none of whose parts carries inline data.\<close>

definition no_image :: "response \<Rightarrow> bool" where
  "no_image res =
     (case first_parts res of
        None \<Rightarrow> True
      | Some ps \<Rightarrow> list_all (\<lambda>p. inlineData p = None) ps)"




text \<open>An answer of the text model with one candidate whose single part is the text.\<close>

definition text_response :: "string \<Rightarrow> response" where
  "text_response t =
     Response (Some [Candidate (Some (Content (Some [\<lparr>part_text = Some t, inlineData = None\<rparr>])))])"

text \<open>The application as it starts with the two keys saved, and with none.\<close>

definition keyed_app :: app where
  "keyed_app = initial browser [''gemini_api'' \<mapsto> ''AIza-key'', ''eleven_key'' \<mapsto> ''xi-key'']"

definition fresh_app :: app where
  "fresh_app = initial browser Map.empty"

definition bench_day :: workout_day where
  "bench_day =
     \<lparr>day_label = ''Day 1'', day_focus = ''Chest'',
      day_exercises =
        [\<lparr>ex_name = ''Bench Press'', ex_sets = ''3'', ex_reps = ''12'', ex_rest = ''60s''\<rparr>]\<rparr>"

text \<open>A plan whose meal mapping lists lunch before breakfast and has no snacks and no tips.\<close>

definition lunch_first_plan :: fitness_plan where
  "lunch_first_plan =
     \<lparr>motivationalQuote = ''Go'', workout_overview = ''Push'', workout_days = [bench_day],
      diet_overview = ''Eat'',
      meals = [(''lunch'', [''Soup'']), (''breakfast'', [''Eggs'']), (''dinner'', [''Rice''])],
      lifestyleTips = None\<rparr>"

fun is_speak :: "effect \<Rightarrow> bool" where
  "is_speak (Speak txt) = True"
| "is_speak e = False"

text \<open>The application showing \<^term>\<open>lunch_first_plan\<close>, with both keys saved.\<close>

definition planned_app :: app where
  "planned_app = keyed_app\<lparr>plan := plan_json lunch_first_plan, currentStep := ''plan''\<rparr>"

text \<open>The speech service refusing the key: status 401 with a JSON body.\<close>

definition refused_reply :: "http_response promise" where
  \<open>refused_reply =
     Fulfilled (HttpResponse 401 (Fulfilled ''{"detail":{"status":"invalid_api_key"}}''))\<close>



definition str :: "string \<Rightarrow> jsval" where
  "str t = Some (JStr t)"

section \<open>Facts about the fence-stripping replace\<close>

lemma backtick_not_space: "\<not> is_space (CHR 0x60)"
  by (simp add: is_space_def)

lemma fence_simps: "fence = [CHR 0x60, CHR 0x60, CHR 0x60]" "length fence = 3"
  by (simp_all add: fence_def numeral_3_eq_3)

lemma dropWhile_fence: "dropWhile is_space (fence @ xs) = fence @ xs"
  by (simp add: fence_simps backtick_not_space)

lemma trim_fenced: "trim (fence @ xs @ fence) = fence @ xs @ fence"
proof -
  have "rev (fence @ xs @ fence) = fence @ rev xs @ fence"
    by (simp add: fence_simps)
  then show ?thesis
    by (simp add: trim_def dropWhile_fence del: append_assoc rev_append)
       (simp add: fence_simps)
qed

lemma trim_split:
  "\<exists>w. list_all is_space w \<and> dropWhile is_space r = trim r @ w \<and>
       (trim r \<noteq> [] \<longrightarrow> \<not> is_space (last (trim r)))"
proof -
  define r1 where "r1 = dropWhile is_space r"
  define w where "w = rev (takeWhile is_space (rev r1))"
  have "rev r1 = takeWhile is_space (rev r1) @ dropWhile is_space (rev r1)"
    by simp
  then have "rev (rev r1) = rev (takeWhile is_space (rev r1) @ dropWhile is_space (rev r1))"
    by simp
  then have a: "r1 = trim r @ w"
    unfolding w_def trim_def r1_def[symmetric] by (simp only: rev_append rev_rev_ident)
  have b: "list_all is_space w"
    unfolding w_def list_all_iff by (auto dest: set_takeWhileD)
  have c: "trim r \<noteq> [] \<longrightarrow> \<not> is_space (last (trim r))"
    unfolding trim_def r1_def[symmetric] by (simp add: last_rev hd_dropWhile)
  from a b c show ?thesis
    unfolding r1_def by blast
qed

lemma strip_closing_spaces: "list_all is_space w \<Longrightarrow> strip_closing (w @ fence) = []"
proof -
  assume w: "list_all is_space w"
  then have "dropWhile is_space (w @ fence) = fence"
    by (simp add: list_all_iff dropWhile_append fence_simps backtick_not_space)
  moreover have "w @ fence \<noteq> []"
    by (simp add: fence_simps)
  ultimately show ?thesis
    by (cases "w @ fence") auto
qed

lemma strip_closing_body:
  "t \<noteq> [] \<Longrightarrow> \<not> is_space (last t) \<Longrightarrow> list_all is_space w \<Longrightarrow>
   strip_closing (t @ w @ fence) = t"
proof (induction t)
  case Nil
  then show ?case by simp
next
  case (Cons c t)
  have lx: "last (c # t) \<in> set (c # t)"
    by (rule last_in_set) simp
  have app: "dropWhile is_space ((c # t) @ (w @ fence)) = dropWhile is_space (c # t) @ (w @ fence)"
    using lx Cons.prems(2) by (rule dropWhile_append1[where P = is_space])
  have ne: "dropWhile is_space (c # t) \<noteq> []"
    using lx Cons.prems(2) unfolding dropWhile_eq_Nil_conv by blast
  then have "length (dropWhile is_space (c # t)) > 0"
    by blast
  then have "length (dropWhile is_space ((c # t) @ (w @ fence))) > 3"
    unfolding app by (simp add: fence_simps del: dropWhile.simps)
  then have neq: "dropWhile is_space (c # (t @ w @ fence)) \<noteq> fence"
    by (auto simp: fence_simps simp del: dropWhile.simps)
  show ?case
  proof (cases "t = []")
    case True
    have "strip_closing (c # (w @ fence)) = c # strip_closing (w @ fence)"
      using neq True by (simp del: dropWhile.simps)
    then show ?thesis
      using True strip_closing_spaces[OF Cons.prems(3)] by simp
  next
    case False
    with Cons have ih: "strip_closing (t @ w @ fence) = t" by simp
    have "strip_closing (c # (t @ w @ fence)) = c # strip_closing (t @ w @ fence)"
      using neq by (simp del: dropWhile.simps)
    with ih show ?thesis by simp
  qed
qed

lemma strip_closing_trimmed:
  assumes "list_all is_space w1" and "list_all is_space w2"
  shows "strip_closing (dropWhile is_space (w1 @ r @ w2 @ fence)) = trim r"
proof -
  obtain w where w: "list_all is_space w" "dropWhile is_space r = trim r @ w"
      "trim r \<noteq> [] \<longrightarrow> \<not> is_space (last (trim r))"
    using trim_split by blast
  have d1: "dropWhile is_space (w1 @ r @ w2 @ fence) = dropWhile is_space (r @ w2 @ fence)"
    using assms(1) by (simp add: list_all_iff dropWhile_append)
  show ?thesis
  proof (cases "dropWhile is_space r = []")
    case True
    then have "\<forall>x \<in> set r. is_space x" by (simp add: dropWhile_eq_Nil_conv)
    then have "dropWhile is_space (r @ w2 @ fence) = dropWhile is_space (w2 @ fence)"
      by (simp add: dropWhile_append)
    also have "\<dots> = fence"
      using assms(2) by (simp add: list_all_iff dropWhile_append fence_simps backtick_not_space)
    finally have "strip_closing (dropWhile is_space (w1 @ r @ w2 @ fence)) = strip_closing ([] @ fence)"
      using d1 by simp
    also have "\<dots> = []"
      by (rule strip_closing_spaces) simp
    finally show ?thesis using True w(2) by simp
  next
    case False
    then obtain x where "x \<in> set r" "\<not> is_space x"
      by (auto simp: dropWhile_eq_Nil_conv)
    then have "dropWhile is_space (r @ (w2 @ fence)) = dropWhile is_space r @ (w2 @ fence)"
      by (rule dropWhile_append1)
    then have eq: "dropWhile is_space (w1 @ r @ w2 @ fence) = trim r @ (w @ w2) @ fence"
      using d1 w(2) by simp
    have ww: "list_all is_space (w @ w2)"
      using w(1) assms(2) by simp
    have ne: "trim r \<noteq> []"
      using False w(2) w(1)
      by (metis append_Nil dropWhile_eq_Nil_conv hd_dropWhile list.set_sel(1) list_all_iff)
    show ?thesis
      unfolding eq using strip_closing_body[OF ne _ ww] w(3) ne by blast
  qed
qed

lemma strip_fences_tagged:
  assumes "list_all is_space w1" and "list_all is_space w2"
  shows "strip_fences (trim (fence @ ''json'' @ w1 @ r @ w2 @ fence)) = trim r"
proof -
  have "trim (fence @ (''json'' @ w1 @ r @ w2) @ fence) = fence @ (''json'' @ w1 @ r @ w2) @ fence"
    by (rule trim_fenced)
  then have t: "trim (fence @ ''json'' @ w1 @ r @ w2 @ fence) = fence @ ''json'' @ w1 @ r @ w2 @ fence"
    by simp
  show ?thesis
    unfolding t strip_fences_def
    using strip_closing_trimmed[OF assms, of r]
    by (simp add: fence_simps)
qed

lemma strip_closing_id:
  "\<not> suffix fence s \<Longrightarrow> strip_closing s = s"
proof (induction s)
  case Nil
  then show ?case by simp
next
  case (Cons c s)
  have "suffix (dropWhile is_space (c # s)) (c # s)"
    by (rule suffix_dropWhile)
  with Cons.prems have "dropWhile is_space (c # s) \<noteq> fence"
    by auto
  moreover have "\<not> suffix fence s"
    using Cons.prems by (auto simp: suffix_Cons)
  ultimately show ?case
    using Cons.IH by (simp del: dropWhile.simps)
qed


lemma response_text_single: "response_text (text_response t) = trim t"
  by (simp add: response_text_def text_response_def first_parts_def)

section \<open>Facts about the export\<close>





















lemma scan_parts_none: "(\<forall>p \<in> set ps. inlineData p = None) \<Longrightarrow> scan_parts ps = None"
  by (induction ps) auto

section \<open>Facts about the JSON codec\<close>




















lemma fuel_of_positive: "0 < fuel_of j"
  by (cases j) simp_all
























section \<open>Facts about the example inputs\<close>

lemma apiKey_keyed_app: "apiKey keyed_app = ''AIza-key''"
  by (simp add: keyed_app_def initial_def get_or_def)

lemma apiKey_fresh_app: "apiKey fresh_app = []"
  by (simp add: fresh_app_def initial_def get_or_def)

lemma browser_parse_null: "json_parse browser ''null'' = Inr JNull"
  by code_simp

section \<open>Plan generation without a key\<close>

text \<open>
  Claim C1. Whatever the form holds and whatever the other credentials are, when the
  text-generation key is empty \<^verbatim>\<open>generatePlan\<close> does one thing: it alerts that the key is
  missing. It sends no request, and the plan it holds and the stored plan stay as they
  were.
\<close>

theorem generatePlan_without_key:
  assumes "apiKey s = []"
  shows "effects (generatePlan P reply quota s) =
           effects s @ [Alert ''Enter your Gemini API key first!''] \<and>
         filter is_request (effects (generatePlan P reply quota s)) =
           filter is_request (effects s) \<and>
         plan (generatePlan P reply quota s) = plan s \<and>
         localStorage (generatePlan P reply quota s) = localStorage s"
  using assms by (simp add: generatePlan_def emit_def)

theorem generatePlan_without_key_witness:
  "apiKey fresh_app = [] \<and>
   effects (generatePlan browser (Rejected ''offline'') None fresh_app) =
     effects fresh_app @ [Alert ''Enter your Gemini API key first!''] \<and>
   filter is_request (effects (generatePlan browser (Rejected ''offline'') None fresh_app)) =
     filter is_request (effects fresh_app) \<and>
   plan (generatePlan browser (Rejected ''offline'') None fresh_app) = plan fresh_app \<and>
   localStorage (generatePlan browser (Rejected ''offline'') None fresh_app) =
     localStorage fresh_app"
  using generatePlan_without_key [OF apiKey_fresh_app, of browser "Rejected ''offline''" None]
    apiKey_fresh_app
  by simp

section \<open>The fence-stripping replace\<close>

text \<open>
  Claim C2, as amended. When the answer \<^verbatim>\<open>r\<close> comes wrapped in a fence that opens with three
  backticks and the tag \<^verbatim>\<open>json\<close> and closes with three backticks (white space allowed after
  the opening and before the closing), the text that \<^verbatim>\<open>generatePlan\<close> hands to \<^verbatim>\<open>JSON.parse\<close>
  is \<^verbatim>\<open>r\<close> without its surrounding white space. That is the text parsed for \<^verbatim>\<open>r\<close> itself
  when \<^verbatim>\<open>r\<close> comes with no fence of its own, so the two runs of \<^verbatim>\<open>generatePlan\<close> end
  in the same state.
\<close>

theorem strip_json_fence:
  "(list_all is_space w1 \<and> list_all is_space w2 \<longrightarrow>
      strip_fences (trim (fence @ ''json'' @ w1 @ r @ w2 @ fence)) = trim r) \<and>
   (list_all is_space w1 \<and> list_all is_space w2 \<and>
    take 7 (trim r) \<noteq> fence @ ''json'' \<and> \<not> suffix fence (trim r) \<longrightarrow>
      strip_fences (trim r) = trim r \<and>
      generatePlan P (Fulfilled (text_response (fence @ ''json'' @ w1 @ r @ w2 @ fence))) quota s =
      generatePlan P (Fulfilled (text_response r)) quota s)"
proof (intro conjI impI)
  assume "list_all is_space w1 \<and> list_all is_space w2"
  then show "strip_fences (trim (fence @ ''json'' @ w1 @ r @ w2 @ fence)) = trim r"
    using strip_fences_tagged by blast
next
  assume a: "list_all is_space w1 \<and> list_all is_space w2 \<and>
    take 7 (trim r) \<noteq> fence @ ''json'' \<and> \<not> suffix fence (trim r)"
  then show plain: "strip_fences (trim r) = trim r"
    unfolding strip_fences_def using strip_closing_id by presburger
  from a have "strip_fences (trim (fence @ ''json'' @ w1 @ r @ w2 @ fence)) = trim r"
    using strip_fences_tagged by blast
  with plain show
    "generatePlan P (Fulfilled (text_response (fence @ ''json'' @ w1 @ r @ w2 @ fence))) quota s =
     generatePlan P (Fulfilled (text_response r)) quota s"
    by (simp only: generatePlan_def generatePlan_try_def response_text_single promise.case Let_def)
qed

theorem strip_json_fence_witness:
  "list_all is_space [CHR 0x0A] \<and>
   take 7 (trim ''{}'') \<noteq> fence @ ''json'' \<and> \<not> suffix fence (trim ''{}'') \<and>
   strip_fences (trim (fence @ ''json'' @ [CHR 0x0A] @ ''{}'' @ [CHR 0x0A] @ fence)) = trim ''{}'' \<and>
   strip_fences (trim ''{}'') = trim ''{}'' \<and>
   generatePlan browser
     (Fulfilled (text_response (fence @ ''json'' @ [CHR 0x0A] @ ''{}'' @ [CHR 0x0A] @ fence)))
     None keyed_app =
   generatePlan browser (Fulfilled (text_response ''{}'')) None keyed_app"
proof -
  have ws: "list_all is_space [CHR 0x0A]"
    by (simp add: is_space_def)
  have t: "trim ''{}'' = ''{}''"
    by (simp add: trim_def is_space_def)
  have nf: "take 7 (trim ''{}'') \<noteq> fence @ ''json'' \<and> \<not> suffix fence (trim ''{}'')"
    unfolding t by (simp add: fence_simps suffix_def)
  show ?thesis
    using strip_json_fence [of "[CHR 0x0A]" "[CHR 0x0A]" "''{}''" browser None keyed_app] ws nf
    by blast
qed

text \<open>
  Claim C2 as stated fails for a fence without the tag: of three backticks, a line break,
  \<^verbatim>\<open>{}\<close>, a line break and three backticks the replace removes the closing fence only, and
  what is left does not parse, while \<^verbatim>\<open>{}\<close> does.
\<close>

theorem strip_bare_fence_counterexample:
  "strip_fences (trim (fence @ [CHR 0x0A] @ ''{}'' @ [CHR 0x0A] @ fence)) =
     fence @ [CHR 0x0A] @ ''{}'' \<and>
   json_parse browser (strip_fences (trim (fence @ [CHR 0x0A] @ ''{}'' @ [CHR 0x0A] @ fence))) =
     Inl ''Unexpected token'' \<and>
   json_parse browser (strip_fences (trim ''{}'')) = Inr (JObj [])"
  by code_simp

section \<open>Failed generation\<close>

text \<open>
  Claim C3. With a key entered, when the attempt fails (the request is rejected, which is
  what the SDK does on a transport failure and on a status that is not 2xx, or the
  stripped text of the answer is not valid JSON), \<^verbatim>\<open>generatePlan\<close> logs the error and alerts
  the user with its message after the one request it sent, and the plan it holds, the
  stored plan and the view step are what they were.
\<close>

theorem generatePlan_failure:
  assumes "apiKey s \<noteq> []" and "attempt_fails P reply = Some msg"
  shows "effects (generatePlan P reply quota s) =
           effects s @
           [GenerateContent ''gemini-2.5-flash'' (plan_prompt (formData s)),
            ConsoleError msg,
            Alert (cross_mark @ '' Failed to generate plan: '' @ msg)] \<and>
         plan (generatePlan P reply quota s) = plan s \<and>
         localStorage (generatePlan P reply quota s) = localStorage s \<and>
         currentStep (generatePlan P reply quota s) = currentStep s"
  using assms
  by (auto simp: generatePlan_def generatePlan_try_def attempt_fails_def emit_def Let_def
           split: promise.splits sum.splits)

theorem generatePlan_failure_witness:
  "apiKey keyed_app \<noteq> [] \<and>
   attempt_fails browser (Fulfilled (text_response ''Sorry, I cannot help.'')) =
     Some ''Unexpected token'' \<and>
   effects (generatePlan browser (Fulfilled (text_response ''Sorry, I cannot help.'')) None
              keyed_app) =
     effects keyed_app @
     [GenerateContent ''gemini-2.5-flash'' (plan_prompt (formData keyed_app)),
      ConsoleError ''Unexpected token'',
      Alert (cross_mark @ '' Failed to generate plan: '' @ ''Unexpected token'')] \<and>
   plan (generatePlan browser (Fulfilled (text_response ''Sorry, I cannot help.'')) None
           keyed_app) = plan keyed_app \<and>
   localStorage (generatePlan browser (Fulfilled (text_response ''Sorry, I cannot help.'')) None
                   keyed_app) = localStorage keyed_app \<and>
   currentStep (generatePlan browser (Fulfilled (text_response ''Sorry, I cannot help.'')) None
                  keyed_app) = currentStep keyed_app"
proof -
  have k: "apiKey keyed_app \<noteq> []"
    by (simp add: apiKey_keyed_app)
  have f: "attempt_fails browser (Fulfilled (text_response ''Sorry, I cannot help.'')) =
             Some ''Unexpected token''"
    by code_simp
  show ?thesis
    using generatePlan_failure [OF k f, of None] k f by simp
qed

section \<open>Image generation without a payload\<close>

text \<open>
  Claim C8. With a key entered, when the image model answers and no part of the answer
  carries inline data, \<^verbatim>\<open>generateImage\<close> alerts the user that the generation failed (no
  image data returned) after the one request it sent, and the image shown, if any, stays
  the one selected before.
\<close>

theorem generateImage_no_payload:
  assumes "apiKey s \<noteq> []" and "no_image res"
  shows "effects (generateImage nm ty (Fulfilled res) s) =
           effects s @
           [GenerateContent ''gemini-2.5-flash-image'' (image_prompt nm ty),
            Alert (cross_mark @ '' Image generation failed: No image data returned.'')] \<and>
         selectedImage (generateImage nm ty (Fulfilled res) s) = selectedImage s"
proof -
  have "scan_parts (case first_parts res of None \<Rightarrow> [] | Some ps \<Rightarrow> ps) = None"
    using assms(2) by (auto simp: no_image_def list_all_iff scan_parts_none split: option.splits)
  then show ?thesis
    using assms(1) by (simp add: generateImage_def generateImage_try_def emit_def Let_def)
qed

theorem generateImage_no_payload_witness:
  "apiKey keyed_app \<noteq> [] \<and> no_image (text_response ''I cannot draw that.'') \<and>
   effects (generateImage ''Plank'' ''exercise''
              (Fulfilled (text_response ''I cannot draw that.'')) keyed_app) =
     effects keyed_app @
     [GenerateContent ''gemini-2.5-flash-image'' (image_prompt ''Plank'' ''exercise''),
      Alert (cross_mark @ '' Image generation failed: No image data returned.'')] \<and>
   selectedImage (generateImage ''Plank'' ''exercise''
                    (Fulfilled (text_response ''I cannot draw that.'')) keyed_app) =
     selectedImage keyed_app"
proof -
  have k: "apiKey keyed_app \<noteq> []"
    by (simp add: apiKey_keyed_app)
  have n: "no_image (text_response ''I cannot draw that.'')"
    by (simp add: no_image_def text_response_def first_parts_def)
  show ?thesis
    using generateImage_no_payload [OF k n, of "''Plank''" "''exercise''"] k n by simp
qed

section \<open>Panels\<close>

text \<open>
  Claim C5. The application starts with every day panel and every meal panel collapsed.
  In any state at most one day panel and at most one meal panel is expanded, and a click
  on the header of another day (or meal) than the expanded one expands the clicked panel
  and collapses the other.
\<close>

theorem panels_exclusive:
  "\<not> day_expanded (initial P store) i \<and> \<not> meal_expanded (initial P store) m \<and>
   (day_expanded s a \<and> a \<noteq> b \<longrightarrow>
      day_expanded (toggleDay b s) b \<and> \<not> day_expanded (toggleDay b s) a) \<and>
   (meal_expanded s x \<and> x \<noteq> y \<longrightarrow>
      meal_expanded (toggleMeal y s) y \<and> \<not> meal_expanded (toggleMeal y s) x) \<and>
   (day_expanded s i \<and> day_expanded s j \<longrightarrow> i = j) \<and>
   (meal_expanded s m \<and> meal_expanded s n \<longrightarrow> m = n)"
  by (auto simp: day_expanded_def meal_expanded_def toggleDay_def toggleMeal_def initial_def)

theorem panels_exclusive_witness:
  "\<not> day_expanded (initial browser Map.empty) 0 \<and>
   \<not> meal_expanded (initial browser Map.empty) ''lunch'' \<and>
   day_expanded (foldl click_step fresh_app [DayHeader 0, MealHeader ''lunch'']) 0 \<and>
   (0::nat) \<noteq> 1 \<and>
   day_expanded (toggleDay 1 (foldl click_step fresh_app [DayHeader 0, MealHeader ''lunch''])) 1 \<and>
   \<not> day_expanded (toggleDay 1 (foldl click_step fresh_app [DayHeader 0, MealHeader ''lunch''])) 0 \<and>
   meal_expanded (foldl click_step fresh_app [DayHeader 0, MealHeader ''lunch'']) ''lunch'' \<and>
   ''lunch'' \<noteq> ''dinner'' \<and>
   meal_expanded
     (toggleMeal ''dinner'' (foldl click_step fresh_app [DayHeader 0, MealHeader ''lunch'']))
     ''dinner'' \<and>
   \<not> meal_expanded
     (toggleMeal ''dinner'' (foldl click_step fresh_app [DayHeader 0, MealHeader ''lunch'']))
     ''lunch''"
proof -
  have d: "day_expanded (foldl click_step fresh_app [DayHeader 0, MealHeader ''lunch'']) 0"
    by (simp add: day_expanded_def toggleDay_def toggleMeal_def fresh_app_def initial_def)
  have m: "meal_expanded (foldl click_step fresh_app [DayHeader 0, MealHeader ''lunch'']) ''lunch''"
    by (simp add: meal_expanded_def toggleDay_def toggleMeal_def fresh_app_def initial_def)
  show ?thesis
    using panels_exclusive [of browser Map.empty 0 "''lunch''"
        "foldl click_step fresh_app [DayHeader 0, MealHeader ''lunch'']" 0 1
        "''lunch''" "''dinner''" 0 "''lunch''"] d m
    by simp
qed

section \<open>Start-up\<close>

text \<open>
  Claim C10, as amended. When the stored plan entry is absent, empty or not valid JSON,
  the application starts with no plan (\<^verbatim>\<open>null\<close>) on the form step; the initialiser always
  returns. When the entry is valid JSON, the plan is the parsed value, and the first
  step is the plan display exactly when that value is truthy, as every object is.
\<close>

theorem startup_plan:
  "(store ''fitness_plan'' = None \<or>
    (\<exists>c. store ''fitness_plan'' = Some c \<and> (c = [] \<or> isl (json_parse P c))) \<longrightarrow>
      plan (initial P store) = JNull \<and> currentStep (initial P store) = ''form'') \<and>
   (store ''fitness_plan'' = Some c \<and> c \<noteq> [] \<and> json_parse P c = Inr v \<longrightarrow>
      plan (initial P store) = v \<and>
      currentStep (initial P store) = (if truthy v then ''plan'' else ''form'')) \<and>
   truthy (JObj kvs)"
  by (auto simp: initial_def initial_plan_def isl_def split: option.splits sum.splits)

theorem startup_plan_witness:
  \<open>isl (json_parse browser ''{"motivationalQuote": '') \<and>
   plan (initial browser [''fitness_plan'' \<mapsto> ''{"motivationalQuote": '']) = JNull \<and>
   currentStep (initial browser [''fitness_plan'' \<mapsto> ''{"motivationalQuote": '']) = ''form'' \<and>
   json_parse browser ''{"motivationalQuote":"Go"}'' = Inr (JObj [(''motivationalQuote'', JStr ''Go'')]) \<and>
   plan (initial browser [''fitness_plan'' \<mapsto> ''{"motivationalQuote":"Go"}'']) =
     JObj [(''motivationalQuote'', JStr ''Go'')] \<and>
   currentStep (initial browser [''fitness_plan'' \<mapsto> ''{"motivationalQuote":"Go"}'']) = ''plan''\<close>
proof -
  have bad: \<open>isl (json_parse browser ''{"motivationalQuote": '')\<close>
    by code_simp
  have good: \<open>json_parse browser ''{"motivationalQuote":"Go"}'' =
                Inr (JObj [(''motivationalQuote'', JStr ''Go'')])\<close>
    by code_simp
  show ?thesis
    using
      startup_plan [of \<open>[''fitness_plan'' \<mapsto> ''{"motivationalQuote": '']\<close> browser
                       \<open>''{"motivationalQuote": ''\<close> JNull "[]"]
      startup_plan [of \<open>[''fitness_plan'' \<mapsto> ''{"motivationalQuote":"Go"}'']\<close> browser
                       \<open>''{"motivationalQuote":"Go"}''\<close>
                       \<open>JObj [(''motivationalQuote'', JStr ''Go'')]\<close> "[]"]
      bad good
    by simp
qed

text \<open>
  Claim C10 as stated fails for a stored entry that is valid JSON for a falsy value: the
  text \<^verbatim>\<open>null\<close> parses, and the application starts on the form step.
\<close>

theorem startup_null_counterexample:
  "json_parse browser ''null'' = Inr JNull \<and>
   plan (initial browser [''fitness_plan'' \<mapsto> ''null'']) = JNull \<and>
   currentStep (initial browser [''fitness_plan'' \<mapsto> ''null'']) = ''form''"
  by (simp add: initial_def initial_plan_def browser_parse_null)

section \<open>Document export\<close>






section \<open>Persisting and reloading the plan\<close>




section \<open>Speech\<close>

text \<open>
  Claim C7 is not what the code does when the speech service answers with an error
  status. \<^verbatim>\<open>fetch\<close> resolves for every status, the handler never looks at it, and so with the
  key refused (401) the body of the error response becomes the audio to play and the
  browser's synthesiser is never called: nothing is spoken and nothing is reported.
\<close>

theorem speakSection_refused_key:
  \<open>filter is_speak (effects (speakSection browser ''workout'' refused_reply planned_app)) = [] \<and>
   filter is_alert (effects (speakSection browser ''workout'' refused_reply planned_app)) = [] \<and>
   audioBlobUrl (speakSection browser ''workout'' refused_reply planned_app) =
     Some ''{"detail":{"status":"invalid_api_key"}}'' \<and>
   last (effects (speakSection browser ''workout'' refused_reply planned_app)) = PlayAudio\<close>
  by code_simp

text \<open>
  What the claim says does hold when the remote path throws (the request or the reading
  of the body is rejected), and when no remote key is configured.
\<close>

lemma speakSection_falls_back:
  assumes "truthy (plan s)" and "elevenKey s \<noteq> []"
    and "reply = Rejected msg \<or> reply = Fulfilled (HttpResponse st (Rejected msg))"
  shows "filter is_speak (effects (speakSection P sect reply s)) =
           filter is_speak (effects s) @ [Speak (section_text (plan s) sect)] \<and>
         filter is_alert (effects (speakSection P sect reply s)) = filter is_alert (effects s)"
  using assms by (auto simp: speakSection_def speak_native_def emit_def Let_def)

lemma speakSection_native:
  assumes "truthy (plan s)" and "elevenKey s = []"
  shows "effects (speakSection P sect reply s) = effects s @ [Speak (section_text (plan s) sect)]"
  using assms by (simp add: speakSection_def speak_native_def emit_def Let_def)

end
